theory Spec2Isabelle
  imports Complex_Main "HOL-Library.Sublist" "HOL-Library.Multiset"
begin

section \<open>Strings of the generator\<close>

text \<open>
  The generator \<^verbatim>\<open>generate-static.js\<close> works on JavaScript strings. They are
  modelled as \<^typ>\<open>string\<close>: exact for ASCII data, and for other data up to the
  difference between UTF-16 code units and UTF-8 bytes (the case mappings below change
  ASCII letters only). The built-in string methods the source calls are written out.
\<close>

definition upper_letters :: string where
  "upper_letters = ''ABCDEFGHIJKLMNOPQRSTUVWXYZ''"

definition lower_letters :: string where
  "lower_letters = ''abcdefghijklmnopqrstuvwxyz''"

definition toLowerChar :: "char \<Rightarrow> char" where
  "toLowerChar c = (case map_of (zip upper_letters lower_letters) c of Some d \<Rightarrow> d | None \<Rightarrow> c)"

definition toUpperChar :: "char \<Rightarrow> char" where
  "toUpperChar c = (case map_of (zip lower_letters upper_letters) c of Some d \<Rightarrow> d | None \<Rightarrow> c)"

definition toLowerCase :: "string \<Rightarrow> string" where
  "toLowerCase s = map toLowerChar s"

definition toUpperCase :: "string \<Rightarrow> string" where
  "toUpperCase s = map toUpperChar s"

text \<open>\<^verbatim>\<open>s.includes(t)\<close>: \<open>t\<close> occurs in \<open>s\<close> as a contiguous substring.\<close>

fun str_includes :: "string \<Rightarrow> string \<Rightarrow> bool" where
  "str_includes [] t = (t = [])"
| "str_includes (c # cs) t = (prefix t (c # cs) \<or> str_includes cs t)"

text \<open>
  \<^verbatim>\<open>s.split(sep)\<close> for a one-character separator. The result is never the empty array,
  so the first case of the inner distinction does not occur.
\<close>

fun str_split :: "char \<Rightarrow> string \<Rightarrow> string list" where
  "str_split sep [] = [[]]"
| "str_split sep (c # cs) =
     (case str_split sep cs of
        [] \<Rightarrow> [[c]]
      | p # ps \<Rightarrow> if c = sep then [] # p # ps else (c # p) # ps)"

text \<open>\<^verbatim>\<open>parts.join(sep)\<close>.\<close>

fun str_join :: "string \<Rightarrow> string list \<Rightarrow> string" where
  "str_join sep [] = []"
| "str_join sep [p] = p"
| "str_join sep (p # q # ps) = p @ sep @ str_join sep (q # ps)"

text \<open>\<^verbatim>\<open>id.replace(/-/g, '_')\<close>.\<close>

definition replace_dashes :: "string \<Rightarrow> string" where
  "replace_dashes s = map (\<lambda>c. if c = CHR ''-'' then CHR ''_'' else c) s"

text \<open>
  Truthiness of an optional string field: \<^verbatim>\<open>undefined\<close>, \<^verbatim>\<open>null\<close> and the empty
  string are falsy.
\<close>

definition truthy :: "string option \<Rightarrow> bool" where
  "truthy v = (case v of None \<Rightarrow> False | Some s \<Rightarrow> s \<noteq> [])"

section \<open>Data model\<close>

text \<open>
  The records of the five collections, as the API delivers them and as the generator
  reads them. A field the source tests for presence is an option (\<open>None\<close> is
  \<^verbatim>\<open>undefined\<close> or \<^verbatim>\<open>null\<close>); a reference list that is missing or not an array is
  \<open>None\<close>. A collection whose fetch failed is \<^verbatim>\<open>null\<close>: \<open>None\<close> in \<open>data\<close>.
\<close>

datatype error = TypeError

record film =
  film_id :: string
  film_title :: string
  film_original_title :: string
  film_original_title_romanised :: string
  film_director :: string
  film_producer :: string
  film_release_date :: string
  film_running_time :: string
  film_rt_score :: string
  film_description :: string

record person =
  person_id :: string
  person_name :: string
  person_gender :: "string option"
  person_age :: "string option"
  person_eye_color :: "string option"
  person_hair_color :: "string option"
  person_species :: "string option"
  person_films :: "string list option"

record species =
  species_id :: string
  species_name :: string
  species_classification :: "string option"
  species_eye_colors :: "string option"
  species_hair_colors :: "string option"
  species_people :: "string list option"
  species_films :: "string list option"

record location =
  location_id :: string
  location_name :: string
  location_films :: "string list option"

record vehicle =
  vehicle_id :: string
  vehicle_name :: string
  vehicle_films :: "string list option"

record data =
  films :: "film list option"
  locations :: "location list option"
  vehicles :: "vehicle list option"
  people :: "person list option"
  species :: "species list option"

section \<open>Helper functions\<close>

text \<open>\<^verbatim>\<open>getIdFromUrl\<close>: \<open>None\<close> is the \<^verbatim>\<open>null\<close> returned for a falsy url.\<close>

definition getIdFromUrl :: "string \<Rightarrow> string option" where
  "getIdFromUrl url = (if url = [] then None else Some (last (str_split CHR ''/'' url)))"

text \<open>
  The three \<^verbatim>\<open>get...ForFilm\<close> filters. Calling \<^verbatim>\<open>.filter\<close> on a \<^verbatim>\<open>null\<close> collection
  throws a TypeError.
\<close>

definition filmsMatch :: "string \<Rightarrow> string list option \<Rightarrow> bool" where
  "filmsMatch filmId refs =
     (case refs of None \<Rightarrow> False | Some urls \<Rightarrow> list_ex (\<lambda>filmUrl. str_includes filmUrl filmId) urls)"

definition getLocationsForFilm :: "string \<Rightarrow> location list option \<Rightarrow> error + location list" where
  "getLocationsForFilm filmId ls =
     (case ls of None \<Rightarrow> Inl TypeError
      | Some xs \<Rightarrow> Inr (filter (\<lambda>l. filmsMatch filmId (location_films l)) xs))"

definition getPeopleForFilm :: "string \<Rightarrow> person list option \<Rightarrow> error + person list" where
  "getPeopleForFilm filmId ps =
     (case ps of None \<Rightarrow> Inl TypeError
      | Some xs \<Rightarrow> Inr (filter (\<lambda>p. filmsMatch filmId (person_films p)) xs))"

definition getVehiclesForFilm :: "string \<Rightarrow> vehicle list option \<Rightarrow> error + vehicle list" where
  "getVehiclesForFilm filmId vs =
     (case vs of None \<Rightarrow> Inl TypeError
      | Some xs \<Rightarrow> Inr (filter (\<lambda>v. filmsMatch filmId (vehicle_films v)) xs))"

text \<open>
  \<^verbatim>\<open>getSpeciesById\<close>: \<open>Inr None\<close> is the \<^verbatim>\<open>undefined\<close> of a \<^verbatim>\<open>find\<close> with no match;
  \<^verbatim>\<open>.find\<close> on a \<^verbatim>\<open>null\<close> array throws.
\<close>

definition getSpeciesById :: "string \<Rightarrow> species list option \<Rightarrow> error + species option" where
  "getSpeciesById speciesIdOrUrl speciesArray =
     (let speciesId = (if str_includes speciesIdOrUrl ''/''
                       then last (str_split CHR ''/'' speciesIdOrUrl) else speciesIdOrUrl)
      in case speciesArray of None \<Rightarrow> Inl TypeError
         | Some xs \<Rightarrow> Inr (find (\<lambda>s. species_id s = speciesId) xs))"

fun capitalize_word :: "string \<Rightarrow> string" where
  "capitalize_word [] = []"
| "capitalize_word (c # cs) = toUpperChar c # toLowerCase cs"

definition capitalize :: "string \<Rightarrow> string" where
  "capitalize str =
     (if str = [] \<or> str = ''n/a'' \<or> str = ''NA'' then str
      else str_join '' '' (map capitalize_word (str_split CHR '' '' str)))"

text \<open>
  \<^verbatim>\<open>getInitials\<close>. With two or more parts it adds \<^verbatim>\<open>parts[0][0]\<close> and the first
  character of the last part; on an empty part that character is \<^verbatim>\<open>undefined\<close>, which
  string concatenation prints as \<^verbatim>\<open>undefined\<close>, and when both are \<^verbatim>\<open>undefined\<close> the
  sum is \<^verbatim>\<open>NaN\<close>, a number with no \<^verbatim>\<open>toUpperCase\<close>: a TypeError.
\<close>

definition getInitials :: "string \<Rightarrow> error + string" where
  "getInitials name =
     (if name = [] then Inr ''?''
      else let parts = str_split CHR '' '' name in
        if length parts \<ge> 2 then
          (case (hd parts, last parts) of
             ([], []) \<Rightarrow> Inl TypeError
           | (a # _, []) \<Rightarrow> Inr (toUpperCase (a # ''undefined''))
           | ([], b # _) \<Rightarrow> Inr (toUpperCase (''undefined'' @ [b]))
           | (a # _, b # _) \<Rightarrow> Inr (toUpperCase [a, b]))
        else Inr (toUpperCase (take 2 name)))"

definition getAvatarColor :: "string option \<Rightarrow> string" where
  "getAvatarColor gender =
     (if \<not> truthy gender then ''avatar-neutral''
      else let genderLower = toLowerCase (the gender) in
        if genderLower = ''female'' then ''avatar-female''
        else if genderLower = ''male'' then ''avatar-male''
        else ''avatar-neutral'')"

definition getSpeciesHeroClass :: "string option \<Rightarrow> string" where
  "getSpeciesHeroClass classification =
     (if \<not> truthy classification then ''species-hero-default''
      else let classLower = toLowerCase (the classification) in
        if str_includes classLower ''mammal'' then ''species-hero-mammal''
        else if str_includes classLower ''spirit'' \<or> str_includes classLower ''god''
          then ''species-hero-spirit''
        else if str_includes classLower ''bird'' \<or> str_includes classLower ''avian''
          then ''species-hero-bird''
        else ''species-hero-default'')"

text \<open>
  The reading of "case-insensitive" the avatar claim is checked against: two strings of
  the same length whose characters agree position by position up to the case of an ASCII
  letter.
\<close>

definition same_letter :: "char \<Rightarrow> char \<Rightarrow> bool" where
  "same_letter c d =
     (c = d \<or> list_ex (\<lambda>(u, l). (c = u \<and> d = l) \<or> (c = l \<and> d = u)) (zip upper_letters lower_letters))"

definition eq_ignore_case :: "string \<Rightarrow> string \<Rightarrow> bool" where
  "eq_ignore_case a b = list_all2 same_letter a b"

section \<open>Numbers\<close>

text \<open>The decimal numeral a template prints for an array length.\<close>

definition digit_char :: "nat \<Rightarrow> char" where
  "digit_char d = ''0123456789'' ! d"

fun number_to_string :: "nat \<Rightarrow> string" where
  "number_to_string n =
     (if n < 10 then [digit_char n] else number_to_string (n div 10) @ [digit_char (n mod 10)])"

declare number_to_string.simps [simp del]

text \<open>
  \<^verbatim>\<open>parseInt(string)\<close> with no radix: leading white space is skipped, then an optional
  sign, then \<^verbatim>\<open>0x\<close> or \<^verbatim>\<open>0X\<close> selects radix 16, then the longest run of digits is
  read; with no digit the result is \<^verbatim>\<open>NaN\<close>, here \<open>None\<close>. The value is the
  mathematical integer; a JavaScript Number holds it exactly up to magnitude \<open>2^53\<close>.
  Of the white space characters only the ASCII ones are covered.
\<close>

definition is_whitespace :: "char \<Rightarrow> bool" where
  "is_whitespace c = (c \<in> set [CHR 0x09, CHR 0x0A, CHR 0x0B, CHR 0x0C, CHR 0x0D, CHR 0x20])"

definition digit_value :: "int \<Rightarrow> char \<Rightarrow> int option" where
  "digit_value radix c =
     (case map_of (zip ''0123456789abcdef'' [0, 1, 2, 3, 4, 5, 6, 7, 8, 9, 10, 11, 12, 13, 14, 15]
                   @ zip ''ABCDEF'' [10, 11, 12, 13, 14, 15]) c of
        None \<Rightarrow> None
      | Some v \<Rightarrow> if v < radix then Some v else None)"

definition parseInt :: "string \<Rightarrow> int option" where
  "parseInt inputString =
     (let s1 = dropWhile is_whitespace inputString;
          sign = (if prefix ''-'' s1 then - 1 else 1);
          s2 = (if prefix ''-'' s1 \<or> prefix ''+'' s1 then drop 1 s1 else s1);
          radix = (if prefix ''0x'' s2 \<or> prefix ''0X'' s2 then 16 else 10);
          s3 = (if prefix ''0x'' s2 \<or> prefix ''0X'' s2 then drop 2 s2 else s2);
          z = takeWhile (\<lambda>c. digit_value radix c \<noteq> None) s3
      in if z = [] then None
         else Some (sign * foldl (\<lambda>acc c. acc * radix + the (digit_value radix c)) 0 z))"

section \<open>Arrays and sets\<close>

text \<open>
  \<^verbatim>\<open>Array.prototype.sort(comparefn)\<close> sorts in place and is stable. A comparator result
  of \<^verbatim>\<open>NaN\<close> (\<open>None\<close>) counts as \<open>+0\<close>. For a consistent comparator every conforming
  engine returns the list computed here; for an inconsistent one the language leaves the
  order to the engine, and the model keeps the order a stable insertion gives.
\<close>

definition sortCompare :: "('a \<Rightarrow> 'a \<Rightarrow> int option) \<Rightarrow> 'a \<Rightarrow> 'a \<Rightarrow> int" where
  "sortCompare comparefn x y = (case comparefn x y of None \<Rightarrow> 0 | Some v \<Rightarrow> v)"

fun array_insert :: "('a \<Rightarrow> 'a \<Rightarrow> int option) \<Rightarrow> 'a \<Rightarrow> 'a list \<Rightarrow> 'a list" where
  "array_insert comparefn x [] = [x]"
| "array_insert comparefn x (y # ys) =
     (if sortCompare comparefn x y > 0 then y # array_insert comparefn x ys else x # y # ys)"

definition array_sort :: "('a \<Rightarrow> 'a \<Rightarrow> int option) \<Rightarrow> 'a list \<Rightarrow> 'a list" where
  "array_sort comparefn xs = foldr (array_insert comparefn) xs []"

text \<open>\<^verbatim>\<open>new Set(array)\<close>: the distinct values in the order of their first insertion.\<close>

definition set_add :: "'a list \<Rightarrow> 'a \<Rightarrow> 'a list" where
  "set_add s x = (if x \<in> set s then s else s @ [x])"

definition new_Set :: "'a list \<Rightarrow> 'a list" where
  "new_Set xs = foldl set_add [] xs"

text \<open>\<^verbatim>\<open>array.map(f)\<close> for an \<open>f\<close> that may throw: the first exception ends the loop.\<close>

fun map_err :: "('a \<Rightarrow> error + 'b) \<Rightarrow> 'a list \<Rightarrow> error + 'b list" where
  "map_err f [] = Inr []"
| "map_err f (x # xs) =
     (case f x of
        Inl e \<Rightarrow> Inl e
      | Inr y \<Rightarrow> (case map_err f xs of Inl e \<Rightarrow> Inl e | Inr ys \<Rightarrow> Inr (y # ys)))"

section \<open>HTML minification\<close>

text \<open>
  \<^verbatim>\<open>html-minifier\<close> is an optional package outside the repository: \<open>None\<close> when it is
  not installed, and otherwise a function that returns the minified page or throws.
\<close>

type_synonym minifier = "(string \<Rightarrow> error + string) option"

definition minifyHTML :: "minifier \<Rightarrow> string \<Rightarrow> error + string" where
  "minifyHTML minify html = (case minify of None \<Rightarrow> Inr html | Some m \<Rightarrow> m html)"

section \<open>HTML templates\<close>

definition getBaseTemplate :: "string \<Rightarrow> string \<Rightarrow> string" where
  \<open>getBaseTemplate content title =
     ''<!DOCTYPE html>\<newline>'' @
     ''<html lang="en">\<newline>'' @
     ''<head>\<newline>'' @
     ''    <meta charset="UTF-8">\<newline>'' @
     ''    <meta name="viewport" content="width=device-width, initial-scale=1.0">\<newline>'' @
     ''    <title>'' @
     title @
     ''</title>\<newline>'' @
     ''    <link rel="stylesheet" href="global-min.css">\<newline>'' @
     ''    <link rel="stylesheet" href="film-min.css">\<newline>'' @
     ''</head>\<newline>'' @
     ''<body>\<newline>'' @
     ''    <div class="clouds"></div>\<newline>'' @
     ''\<newline>'' @
     ''    '' @
     content @
     ''\<newline>'' @
     ''\<newline>'' @
     ''    <footer>\<newline>'' @
     ''        <div class="container">\<newline>'' @
     ''            <p>Data provided by <a href="https://ghibliapi.vercel.app/" target="_blank">Ghibli API</a></p>\<newline>'' @
     ''            <p>&copy; 2025 Studio Ghibli Fan Site</p>\<newline>'' @
     ''        </div>\<newline>'' @
     ''    </footer>\<newline>'' @
     ''</body>\<newline>'' @
     ''</html>''\<close>

definition getSpeciesTemplate :: "string \<Rightarrow> string \<Rightarrow> string" where
  \<open>getSpeciesTemplate content title =
     ''<!DOCTYPE html>\<newline>'' @
     ''<html lang="en">\<newline>'' @
     ''<head>\<newline>'' @
     ''    <meta charset="UTF-8">\<newline>'' @
     ''    <meta name="viewport" content="width=device-width, initial-scale=1.0">\<newline>'' @
     ''    <title>'' @
     title @
     ''</title>\<newline>'' @
     ''    <link rel="stylesheet" href="global-min.css">\<newline>'' @
     ''    <link rel="stylesheet" href="species-min.css">\<newline>'' @
     ''</head>\<newline>'' @
     ''<body>\<newline>'' @
     ''    <div class="clouds"></div>\<newline>'' @
     ''\<newline>'' @
     ''    '' @
     content @
     ''\<newline>'' @
     ''\<newline>'' @
     ''    <footer>\<newline>'' @
     ''        <div class="container">\<newline>'' @
     ''            <p>Data provided by <a href="https://ghibliapi.vercel.app/" target="_blank">Ghibli API</a></p>\<newline>'' @
     ''            <p>&copy; 2025 Studio Ghibli Fan Site</p>\<newline>'' @
     ''        </div>\<newline>'' @
     ''    </footer>\<newline>'' @
     ''</body>\<newline>'' @
     ''</html>''\<close>

definition getIndexTemplate :: "string \<Rightarrow> string \<Rightarrow> string" where
  \<open>getIndexTemplate content title =
     ''<!DOCTYPE html>\<newline>'' @
     ''<html lang="en">\<newline>'' @
     ''<head>\<newline>'' @
     ''    <meta charset="UTF-8">\<newline>'' @
     ''    <meta name="viewport" content="width=device-width, initial-scale=1.0">\<newline>'' @
     ''    <title>'' @
     title @
     ''</title>\<newline>'' @
     ''    <link rel="stylesheet" href="global-min.css">\<newline>'' @
     ''    <link rel="stylesheet" href="index-min.css">\<newline>'' @
     ''</head>\<newline>'' @
     ''<body>\<newline>'' @
     ''    \<newline>'' @
     ''    <!-- Soot Sprites (Susuwatari) -->\<newline>'' @
     ''    <div class="soot-sprites">\<newline>'' @
     ''        <div class="soot-sprite" style="left: 10%; animation-delay: 0s; width: 28px; height: 28px;">\<newline>'' @
     ''            <div class="soot-limbs"></div>\<newline>'' @
     ''        </div>\<newline>'' @
     ''        <div class="soot-sprite" style="left: 25%; animation-delay: 2s; width: 32px; height: 32px;">\<newline>'' @
     ''            <div class="soot-limbs"></div>\<newline>'' @
     ''        </div>\<newline>'' @
     ''        <div class="soot-sprite" style="left: 45%; animation-delay: 4s; width: 26px; height: 26px;">\<newline>'' @
     ''            <div class="soot-limbs"></div>\<newline>'' @
     ''        </div>\<newline>'' @
     ''        <div class="soot-sprite" style="left: 65%; animation-delay: 1s; width: 30px; height: 30px;">\<newline>'' @
     ''            <div class="soot-limbs"></div>\<newline>'' @
     ''        </div>\<newline>'' @
     ''        <div class="soot-sprite" style="left: 80%; animation-delay: 3s; width: 34px; height: 34px;">\<newline>'' @
     ''            <div class="soot-limbs"></div>\<newline>'' @
     ''        </div>\<newline>'' @
     ''        <div class="soot-sprite" style="left: 90%; animation-delay: 5s; width: 27px; height: 27px;">\<newline>'' @
     ''            <div class="soot-limbs"></div>\<newline>'' @
     ''        </div>\<newline>'' @
     ''    </div>\<newline>'' @
     ''    \<newline>'' @
     ''    <!-- Kodama (Tree Spirits) -->\<newline>'' @
     ''    <div class="kodama-container">\<newline>'' @
     ''        <div class="kodama" style="left: 15%; top: 20%;"></div>\<newline>'' @
     ''        <div class="kodama" style="left: 75%; top: 35%;"></div>\<newline>'' @
     ''        <div class="kodama" style="left: 30%; top: 60%;"></div>\<newline>'' @
     ''    </div>\<newline>'' @
     ''    \<newline>'' @
     ''    <!-- Floating Leaves -->\<newline>'' @
     ''    <div class="leaves">\<newline>'' @
     ''        <div class="leaf" style="left: 20%; animation-delay: 0s;"></div>\<newline>'' @
     ''        <div class="leaf" style="left: 50%; animation-delay: 3s;"></div>\<newline>'' @
     ''        <div class="leaf" style="left: 70%; animation-delay: 6s;"></div>\<newline>'' @
     ''        <div class="leaf" style="left: 85%; animation-delay: 9s;"></div>\<newline>'' @
     ''    </div>\<newline>'' @
     ''\<newline>'' @
     ''    '' @
     content @
     ''\<newline>'' @
     ''\<newline>'' @
     ''    <footer>\<newline>'' @
     ''        <div class="container">\<newline>'' @
     ''            <p>Data provided by <a href="https://ghibliapi.vercel.app/" target="_blank">Ghibli API</a></p>\<newline>'' @
     ''            <p>&copy; 2025 Studio Ghibli Fan Site</p>\<newline>'' @
     ''        </div>\<newline>'' @
     ''    </footer>\<newline>'' @
     ''\<newline>'' @
     ''    <script src="soot-min.js"></script>\<newline>'' @
     ''</body>\<newline>'' @
     ''</html>''\<close>

definition noneTag :: string where
  \<open>noneTag = ''<div class="info-tag">None</div>''\<close>

section \<open>Index page\<close>

text \<open>The comparator of the index page: the difference of the parsed release dates.\<close>

definition compareFilms :: "film \<Rightarrow> film \<Rightarrow> int option" where
  "compareFilms a b =
     (case (parseInt (film_release_date a), parseInt (film_release_date b)) of
        (Some x, Some y) \<Rightarrow> Some (x - y)
      | _ \<Rightarrow> None)"

text \<open>The href of a film card, \<^verbatim>\<open>film_${film.id}.html\<close> in the card's template.\<close>

definition filmCardLink :: "film \<Rightarrow> string" where
  "filmCardLink film = ''film_'' @ film_id film @ ''.html''"

definition filmCard :: "film \<Rightarrow> string" where
  \<open>filmCard film =
     (let imageId = replace_dashes (film_id film);
          imageUrl = ''https://marsbj.folk.ntnu.no/images/films_'' @ imageId @ ''.webp''
      in
       ''\<newline>'' @
       ''            <a href="'' @
       filmCardLink film @
       ''" class="film-card" style="text-decoration: none; color: inherit; cursor: pointer;">\<newline>'' @
       ''                <img src="'' @
       imageUrl @
       ''" alt="'' @
       film_title film @
       ''" class="film-image" loading="lazy">\<newline>'' @
       ''                <div class="film-content">\<newline>'' @
       ''                    <div class="release-year">'' @
       film_release_date film @
       ''</div>\<newline>'' @
       ''                    <h2>'' @
       film_title film @
       ''</h2>\<newline>'' @
       ''                    <div class="original-title">'' @
       film_original_title film @
       ''</div>\<newline>'' @
       ''                    <div class="film-info">\<newline>'' @
       ''                        <div class="info-item">\<newline>'' @
       ''                            <span class="info-label">Director:</span>\<newline>'' @
       ''                            <span>'' @
       film_director film @
       ''</span>\<newline>'' @
       ''                        </div>\<newline>'' @
       ''                        <div class="info-item">\<newline>'' @
       ''                            <span class="info-label">Producer:</span>\<newline>'' @
       ''                            <span>'' @
       film_producer film @
       ''</span>\<newline>'' @
       ''                        </div>\<newline>'' @
       ''                        <div class="info-item">\<newline>'' @
       ''                            <span class="info-label">Runtime:</span>\<newline>'' @
       ''                            <span>'' @
       film_running_time film @
       '' mins</span>\<newline>'' @
       ''                        </div>\<newline>'' @
       ''                        <div class="info-item">\<newline>'' @
       ''                            <span class="rt-score">'' @
       [CHR 0xE2, CHR 0xAD, CHR 0x90] @
       '' '' @
       film_rt_score film @
       ''%</span>\<newline>'' @
       ''                        </div>\<newline>'' @
       ''                    </div>\<newline>'' @
       ''                    <div class="description">\<newline>'' @
       ''                        '' @
       film_description film @
       ''\<newline>'' @
       ''                    </div>\<newline>'' @
       ''                </div>\<newline>'' @
       ''            </a>\<newline>'' @
       ''        '')\<close>

definition indexHeaderHTML :: "string \<Rightarrow> string" where
  \<open>indexHeaderHTML filmsHTML =
       ''\<newline>'' @
       ''    <header>\<newline>'' @
       ''        <div class="container">\<newline>'' @
       ''            <h1 class="logo">STUDIO GHIBLI</h1>\<newline>'' @
       ''            <p class="tagline">Explore the Magical World of Ghibli</p>\<newline>'' @
       ''        </div>\<newline>'' @
       ''    </header>\<newline>'' @
       ''\<newline>'' @
       ''    <main class="container">\<newline>'' @
       ''        <div id="films-grid" class="films-grid">\<newline>'' @
       ''            '' @
       filmsHTML @
       ''\<newline>'' @
       ''        </div>\<newline>'' @
       ''    </main>\<newline>'' @
       ''    ''\<close>

text \<open>
  \<^verbatim>\<open>generateIndexPage(films)\<close>. The call \<^verbatim>\<open>films.sort(...)\<close> sorts the array it is given
  in place, so the function returns the page together with the array as the call leaves
  it. On \<^verbatim>\<open>null\<close> the method call throws.
\<close>

definition generateIndexPage :: "film list option \<Rightarrow> error + string \<times> film list" where
  "generateIndexPage films_array =
     (case films_array of
        None \<Rightarrow> Inl TypeError
      | Some fs \<Rightarrow>
          let sortedFilms = array_sort compareFilms fs;
              filmsHTML = concat (map filmCard sortedFilms);
              headerHTML = indexHeaderHTML filmsHTML
          in Inr (getIndexTemplate headerHTML ''Studio Ghibli Films'', sortedFilms))"

section \<open>Film page\<close>

text \<open>
  The species name and url of a character card (\<^verbatim>\<open>speciesName\<close>, \<^verbatim>\<open>speciesUrl\<close>):
  the url is \<^verbatim>\<open>null\<close> (\<open>None\<close>) unless the person has a non-empty species string.
\<close>

definition characterSpecies :: "person \<Rightarrow> species list option \<Rightarrow> error + string \<times> string option" where
  "characterSpecies person speciesArray =
     (if truthy (person_species person) then
        (case getSpeciesById (the (person_species person)) speciesArray of
           Inl e \<Rightarrow> Inl e
         | Inr speciesData \<Rightarrow>
             Inr (case speciesData of
                    None \<Rightarrow> ''Unknown''
                  | Some s \<Rightarrow> if species_name s \<noteq> [] then species_name s else ''Unknown'',
                  person_species person))
      else Inr (''Unknown'', None))"

text \<open>
  The href of a card's species link, \<^verbatim>\<open>species_${getIdFromUrl(speciesUrl)}.html\<close> in the
  card's template; a \<^verbatim>\<open>null\<close> id would print as \<^verbatim>\<open>null\<close>.
\<close>

definition characterSpeciesLink :: "string \<Rightarrow> string" where
  "characterSpeciesLink speciesUrl =
     ''species_'' @ (case getIdFromUrl speciesUrl of None \<Rightarrow> ''null'' | Some i \<Rightarrow> i) @ ''.html''"

definition characterCard :: "person \<Rightarrow> species list option \<Rightarrow> error + string" where
  \<open>characterCard person speciesArray =
     (case characterSpecies person speciesArray of
        Inl e \<Rightarrow> Inl e
      | Inr (speciesName, speciesUrl) \<Rightarrow>
         (case getInitials (person_name person) of
            Inl e \<Rightarrow> Inl e
          | Inr initials \<Rightarrow> Inr (
           ''\<newline>'' @
           ''            <div class="character-card">\<newline>'' @
           ''                <div class="character-avatar '' @
           getAvatarColor (person_gender person) @
           ''">\<newline>'' @
           ''                    '' @
           initials @
           ''\<newline>'' @
           ''                </div>\<newline>'' @
           ''                <h4>'' @
           person_name person @
           ''</h4>\<newline>'' @
           ''                <div class="character-details">\<newline>'' @
           ''                    '' @
           (if truthy (person_gender person) then (''\<newline>'' @
           ''                        <div class="character-detail-item">\<newline>'' @
           ''                            <span class="detail-label">Gender:</span>\<newline>'' @
           ''                            <span class="detail-value">'' @
           capitalize (the (person_gender person)) @
           ''</span>\<newline>'' @
           ''                        </div>\<newline>'' @
           ''                    '') else []) @
           ''\<newline>'' @
           ''                    '' @
           (if truthy (person_age person) then (''\<newline>'' @
           ''                        <div class="character-detail-item">\<newline>'' @
           ''                            <span class="detail-label">Age:</span>\<newline>'' @
           ''                            <span class="detail-value">'' @
           the (person_age person) @
           ''</span>\<newline>'' @
           ''                        </div>\<newline>'' @
           ''                    '') else []) @
           ''\<newline>'' @
           ''                    '' @
           (if truthy (person_eye_color person) then (''\<newline>'' @
           ''                        <div class="character-detail-item">\<newline>'' @
           ''                            <span class="detail-label">Eye Color:</span>\<newline>'' @
           ''                            <span class="detail-value">'' @
           capitalize (the (person_eye_color person)) @
           ''</span>\<newline>'' @
           ''                        </div>\<newline>'' @
           ''                    '') else []) @
           ''\<newline>'' @
           ''                    '' @
           (if truthy (person_hair_color person) then (''\<newline>'' @
           ''                        <div class="character-detail-item">\<newline>'' @
           ''                            <span class="detail-label">Hair Color:</span>\<newline>'' @
           ''                            <span class="detail-value">'' @
           capitalize (the (person_hair_color person)) @
           ''</span>\<newline>'' @
           ''                        </div>\<newline>'' @
           ''                    '') else []) @
           ''\<newline>'' @
           ''                    '' @
           (if speciesName \<noteq> [] \<and> speciesName \<noteq> ''Unknown'' then (''\<newline>'' @
           ''                        <div class="character-detail-item">\<newline>'' @
           ''                            <span class="detail-label">Species:</span>\<newline>'' @
           ''                            <span class="detail-value">\<newline>'' @
           ''                                '' @
           (if truthy speciesUrl then (''<a href="'' @
           characterSpeciesLink (the speciesUrl) @
           ''" class="species-link">'' @
           speciesName @
           ''</a>'') else speciesName) @
           ''\<newline>'' @
           ''                            </span>\<newline>'' @
           ''                        </div>\<newline>'' @
           ''                    '') else []) @
           ''\<newline>'' @
           ''                </div>\<newline>'' @
           ''            </div>\<newline>'' @
           ''        '')))\<close>

definition locationTag :: "location \<Rightarrow> string" where
  \<open>locationTag l = ''<div class="info-tag">'' @ location_name l @ ''</div>''\<close>

definition vehicleTag :: "vehicle \<Rightarrow> string" where
  \<open>vehicleTag v = ''<div class="info-tag">'' @ vehicle_name v @ ''</div>''\<close>

text \<open>The href of a species tag, \<^verbatim>\<open>species_${speciesObj.id}.html\<close> in the tag's template.\<close>

definition speciesTagLink :: "species \<Rightarrow> string" where
  "speciesTagLink speciesObj = ''species_'' @ species_id speciesObj @ ''.html''"

definition speciesTagHtml :: "species \<Rightarrow> string" where
  \<open>speciesTagHtml speciesObj =
       ''<a href="'' @
       speciesTagLink speciesObj @
       ''" class="info-tag" style="text-decoration: none; cursor: pointer;">'' @
       species_name speciesObj @
       ''</a>''\<close>

text \<open>One entry of the species list: the empty string when the reference does not resolve.\<close>

definition speciesTag :: "string \<Rightarrow> species list option \<Rightarrow> error + string" where
  "speciesTag speciesUrl speciesArray =
     (case getSpeciesById speciesUrl speciesArray of
        Inl e \<Rightarrow> Inl e
      | Inr None \<Rightarrow> Inr []
      | Inr (Some speciesObj) \<Rightarrow> Inr (speciesTagHtml speciesObj))"

text \<open>
  The local constants of \<^verbatim>\<open>generateFilmPage\<close>, in the order the source computes them;
  \<open>characterCards\<close> and \<open>speciesTags\<close> are the arrays that \<^verbatim>\<open>join('')\<close> turns into
  \<^verbatim>\<open>charactersHTML\<close> and \<^verbatim>\<open>speciesHTML\<close>.
\<close>

record film_page_parts =
  filmLocations :: "location list"
  filmPeople :: "person list"
  filmVehicles :: "vehicle list"
  uniqueSpecies :: "string list"
  characterCards :: "string list"
  speciesTags :: "string list"

definition filmPageParts :: "string \<Rightarrow> data \<Rightarrow> error + film_page_parts" where
  "filmPageParts filmId d =
     (case getLocationsForFilm filmId (locations d) of Inl e \<Rightarrow> Inl e | Inr fl \<Rightarrow>
     (case getPeopleForFilm filmId (people d) of Inl e \<Rightarrow> Inl e | Inr fp \<Rightarrow>
     (case getVehiclesForFilm filmId (vehicles d) of Inl e \<Rightarrow> Inl e | Inr fv \<Rightarrow>
     (let us = new_Set (map (\<lambda>p. the (person_species p)) (filter (\<lambda>p. truthy (person_species p)) fp)) in
     (case map_err (\<lambda>p. characterCard p (species d)) fp of Inl e \<Rightarrow> Inl e | Inr cards \<Rightarrow>
     (case (if length us > 0 then map_err (\<lambda>u. speciesTag u (species d)) us else Inr []) of
        Inl e \<Rightarrow> Inl e
      | Inr tags \<Rightarrow>
          Inr \<lparr>filmLocations = fl, filmPeople = fp, filmVehicles = fv, uniqueSpecies = us,
               characterCards = cards, speciesTags = filter (\<lambda>html. html \<noteq> []) tags\<rparr>))))))"

text \<open>\<^verbatim>\<open>speciesHTML\<close>: the joined tags when the set is not empty, the "None" tag otherwise.\<close>

definition filmSpeciesHTML :: "film_page_parts \<Rightarrow> string" where
  "filmSpeciesHTML parts =
     (if length (uniqueSpecies parts) > 0 then concat (speciesTags parts) else noneTag)"

definition filmHeaderHTML :: "film \<Rightarrow> string \<Rightarrow> film_page_parts \<Rightarrow> string" where
  \<open>filmHeaderHTML film filmId parts =
     (let filmLocations = filmLocations parts;
          filmPeople = filmPeople parts;
          filmVehicles = filmVehicles parts;
          uniqueSpecies = uniqueSpecies parts;
          imageId = replace_dashes filmId;
          bannerUrl = ''https://marsbj.folk.ntnu.no/images/banner_'' @ imageId @ ''.webp'';
          charactersHTML = concat (characterCards parts);
          locationsHTML = (if length filmLocations > 0 then concat (map locationTag filmLocations) else noneTag);
          speciesHTML = filmSpeciesHTML parts;
          vehiclesHTML = (if length filmVehicles > 0 then concat (map vehicleTag filmVehicles) else noneTag)
      in
       ''\<newline>'' @
       ''    <header>\<newline>'' @
       ''        <div class="container">\<newline>'' @
       ''            <h1 class="logo">STUDIO GHIBLI</h1>\<newline>'' @
       ''            <a href="index.html" class="back-btn">'' @
       [CHR 0xE2, CHR 0x86, CHR 0x90] @
       '' Back to All Films</a>\<newline>'' @
       ''        </div>\<newline>'' @
       ''    </header>\<newline>'' @
       ''\<newline>'' @
       ''    <main class="container">\<newline>'' @
       ''        <div id="film-detail" class="film-detail">\<newline>'' @
       ''            <div class="detail-hero">\<newline>'' @
       ''                <img src="'' @
       bannerUrl @
       ''" alt="'' @
       film_title film @
       ''" class="detail-banner" onerror="this.style.display='none'">\<newline>'' @
       ''            </div>\<newline>'' @
       ''            \<newline>'' @
       ''            <div class="detail-header">\<newline>'' @
       ''                <h2>'' @
       film_title film @
       ''</h2>\<newline>'' @
       ''                <div class="detail-original-title">'' @
       film_original_title film @
       '' ('' @
       film_original_title_romanised film @
       '')</div>\<newline>'' @
       ''                \<newline>'' @
       ''                <div class="info-grid">\<newline>'' @
       ''                    <div class="info-box">\<newline>'' @
       ''                        <div class="info-box-label">Release Year</div>\<newline>'' @
       ''                        <div class="info-box-value">'' @
       film_release_date film @
       ''</div>\<newline>'' @
       ''                    </div>\<newline>'' @
       ''                    <div class="info-box">\<newline>'' @
       ''                        <div class="info-box-label">Director</div>\<newline>'' @
       ''                        <div class="info-box-value">'' @
       film_director film @
       ''</div>\<newline>'' @
       ''                    </div>\<newline>'' @
       ''                    <div class="info-box">\<newline>'' @
       ''                        <div class="info-box-label">Producer</div>\<newline>'' @
       ''                        <div class="info-box-value">'' @
       film_producer film @
       ''</div>\<newline>'' @
       ''                    </div>\<newline>'' @
       ''                    <div class="info-box">\<newline>'' @
       ''                        <div class="info-box-label">Running Time</div>\<newline>'' @
       ''                        <div class="info-box-value">'' @
       film_running_time film @
       '' mins</div>\<newline>'' @
       ''                    </div>\<newline>'' @
       ''                    <div class="info-box">\<newline>'' @
       ''                        <div class="info-box-label">RT Score</div>\<newline>'' @
       ''                        <div class="info-box-value">'' @
       [CHR 0xE2, CHR 0xAD, CHR 0x90] @
       '' '' @
       film_rt_score film @
       ''%</div>\<newline>'' @
       ''                    </div>\<newline>'' @
       ''                </div>\<newline>'' @
       ''                \<newline>'' @
       ''                <div class="detail-description">\<newline>'' @
       ''                    '' @
       film_description film @
       ''\<newline>'' @
       ''                </div>\<newline>'' @
       ''            </div>\<newline>'' @
       ''            \<newline>'' @
       ''            <div class="characters-section">\<newline>'' @
       ''                <h3 class="section-title">Characters ('' @
       number_to_string (length filmPeople) @
       '')</h3>\<newline>'' @
       ''                <div id="characters-grid" class="characters-grid">\<newline>'' @
       ''                    '' @
       (if charactersHTML \<noteq> [] then charactersHTML else ''<p style="text-align: center; grid-column: 1/-1; color: var(--text-dark);">No character information available.</p>'') @
       ''\<newline>'' @
       ''                </div>\<newline>'' @
       ''            </div>\<newline>'' @
       ''            \<newline>'' @
       ''            <div class="additional-section">\<newline>'' @
       ''                <h3 class="section-title">Additional Information</h3>\<newline>'' @
       ''                \<newline>'' @
       ''                <div class="info-section">\<newline>'' @
       ''                    <h4>Locations ('' @
       number_to_string (length filmLocations) @
       '')</h4>\<newline>'' @
       ''                    <div class="info-list" id="locations-list">\<newline>'' @
       ''                        '' @
       locationsHTML @
       ''\<newline>'' @
       ''                    </div>\<newline>'' @
       ''                </div>\<newline>'' @
       ''                \<newline>'' @
       ''                <div class="info-section">\<newline>'' @
       ''                    <h4>Species ('' @
       number_to_string (length uniqueSpecies) @
       '')</h4>\<newline>'' @
       ''                    <div class="info-list" id="species-list">\<newline>'' @
       ''                        '' @
       speciesHTML @
       ''\<newline>'' @
       ''                    </div>\<newline>'' @
       ''                </div>\<newline>'' @
       ''                \<newline>'' @
       ''                <div class="info-section">\<newline>'' @
       ''                    <h4>Vehicles ('' @
       number_to_string (length filmVehicles) @
       '')</h4>\<newline>'' @
       ''                    <div class="info-list" id="vehicles-list">\<newline>'' @
       ''                        '' @
       vehiclesHTML @
       ''\<newline>'' @
       ''                    </div>\<newline>'' @
       ''                </div>\<newline>'' @
       ''            </div>\<newline>'' @
       ''        </div>\<newline>'' @
       ''    </main>\<newline>'' @
       ''    '')\<close>

definition generateFilmPage :: "film \<Rightarrow> string \<Rightarrow> data \<Rightarrow> error + string" where
  "generateFilmPage film filmId d =
     (case filmPageParts filmId d of
        Inl e \<Rightarrow> Inl e
      | Inr parts \<Rightarrow>
          Inr (getBaseTemplate (filmHeaderHTML film filmId parts) (film_title film @ '' - Studio Ghibli'')))"

section \<open>Species page\<close>

definition collection_names :: "string list" where
  "collection_names = [''people'', ''locations'', ''species'', ''vehicles'', ''films'']"

text \<open>
  The filter on reference urls: \<open>lastPart\<close> is the last non-empty part of the url,
  \<open>None\<close> (\<^verbatim>\<open>undefined\<close>) when it has none.
\<close>

definition lastPart :: "string \<Rightarrow> string option" where
  "lastPart url =
     (let parts = filter (\<lambda>part. length part > 0) (str_split CHR ''/'' url)
      in if parts = [] then None else Some (last parts))"

definition keepReference :: "string \<Rightarrow> bool" where
  "keepReference url = (\<not> list_ex (\<lambda>n. lastPart url = Some n) collection_names)"

definition findPerson :: "string option \<Rightarrow> person list option \<Rightarrow> error + person option" where
  "findPerson personId ps =
     (case ps of
        None \<Rightarrow> Inl TypeError
      | Some xs \<Rightarrow> Inr (case personId of None \<Rightarrow> None | Some i \<Rightarrow> find (\<lambda>p. person_id p = i) xs))"

definition findFilm :: "string option \<Rightarrow> film list option \<Rightarrow> error + film option" where
  "findFilm filmId fs =
     (case fs of
        None \<Rightarrow> Inl TypeError
      | Some xs \<Rightarrow> Inr (case filmId of None \<Rightarrow> None | Some i \<Rightarrow> find (\<lambda>f. film_id f = i) xs))"

definition resolveSpeciesPeople :: "species \<Rightarrow> data \<Rightarrow> error + person list" where
  "resolveSpeciesPeople sp d =
     (case species_people sp of
        None \<Rightarrow> Inr []
      | Some urls \<Rightarrow>
          (case map_err (\<lambda>url. findPerson (getIdFromUrl url) (people d)) (filter keepReference urls) of
             Inl e \<Rightarrow> Inl e
           | Inr found \<Rightarrow> Inr (List.map_filter (\<lambda>p. p) found)))"

definition resolveSpeciesFilms :: "species \<Rightarrow> data \<Rightarrow> error + film list" where
  "resolveSpeciesFilms sp d =
     (case species_films sp of
        None \<Rightarrow> Inr []
      | Some urls \<Rightarrow>
          (case map_err (\<lambda>url. findFilm (getIdFromUrl url) (films d)) (filter keepReference urls) of
             Inl e \<Rightarrow> Inl e
           | Inr found \<Rightarrow> Inr (List.map_filter (\<lambda>f. f) found)))"

definition speciesPersonCard :: "person \<Rightarrow> error + string" where
  \<open>speciesPersonCard person =
     (case getInitials (person_name person) of
        Inl e \<Rightarrow> Inl e
      | Inr initials \<Rightarrow> Inr (
         ''\<newline>'' @
         ''        <div class="character-card">\<newline>'' @
         ''            <div class="character-avatar '' @
         getAvatarColor (person_gender person) @
         ''">\<newline>'' @
         ''                '' @
         initials @
         ''\<newline>'' @
         ''            </div>\<newline>'' @
         ''            <h4>'' @
         person_name person @
         ''</h4>\<newline>'' @
         ''            <div class="character-details">\<newline>'' @
         ''                '' @
         (if truthy (person_gender person) then (''\<newline>'' @
         ''                    <div class="character-detail-item">\<newline>'' @
         ''                        <span class="detail-label">Gender:</span>\<newline>'' @
         ''                        <span class="detail-value">'' @
         capitalize (the (person_gender person)) @
         ''</span>\<newline>'' @
         ''                    </div>\<newline>'' @
         ''                '') else []) @
         ''\<newline>'' @
         ''                '' @
         (if truthy (person_age person) then (''\<newline>'' @
         ''                    <div class="character-detail-item">\<newline>'' @
         ''                        <span class="detail-label">Age:</span>\<newline>'' @
         ''                        <span class="detail-value">'' @
         the (person_age person) @
         ''</span>\<newline>'' @
         ''                    </div>\<newline>'' @
         ''                '') else []) @
         ''\<newline>'' @
         ''                '' @
         (if truthy (person_eye_color person) then (''\<newline>'' @
         ''                    <div class="character-detail-item">\<newline>'' @
         ''                        <span class="detail-label">Eye Color:</span>\<newline>'' @
         ''                        <span class="detail-value">'' @
         capitalize (the (person_eye_color person)) @
         ''</span>\<newline>'' @
         ''                    </div>\<newline>'' @
         ''                '') else []) @
         ''\<newline>'' @
         ''                '' @
         (if truthy (person_hair_color person) then (''\<newline>'' @
         ''                    <div class="character-detail-item">\<newline>'' @
         ''                        <span class="detail-label">Hair Color:</span>\<newline>'' @
         ''                        <span class="detail-value">'' @
         capitalize (the (person_hair_color person)) @
         ''</span>\<newline>'' @
         ''                    </div>\<newline>'' @
         ''                '') else []) @
         ''\<newline>'' @
         ''            </div>\<newline>'' @
         ''        </div>\<newline>'' @
         ''    ''))\<close>

text \<open>The href of a film tag, \<^verbatim>\<open>film_${film.id}.html\<close> in the tag's template.\<close>

definition filmTagLink :: "film \<Rightarrow> string" where
  "filmTagLink film = ''film_'' @ film_id film @ ''.html''"

definition filmTag :: "film \<Rightarrow> string" where
  \<open>filmTag film =
       ''<a href="'' @
       filmTagLink film @
       ''" class="info-tag" style="text-decoration: none; cursor: pointer;">'' @
       film_title film @
       ''</a>''\<close>

text \<open>The local constants of \<^verbatim>\<open>generateSpeciesPage\<close>; \<open>peopleCards\<close> joins to \<^verbatim>\<open>peopleHTML\<close>.\<close>

record species_page_parts =
  speciesPeople :: "person list"
  speciesFilms :: "film list"
  peopleCards :: "string list"

definition speciesPageParts :: "species \<Rightarrow> data \<Rightarrow> error + species_page_parts" where
  "speciesPageParts sp d =
     (case resolveSpeciesPeople sp d of Inl e \<Rightarrow> Inl e | Inr ps \<Rightarrow>
     (case resolveSpeciesFilms sp d of Inl e \<Rightarrow> Inl e | Inr fs \<Rightarrow>
     (case map_err speciesPersonCard ps of Inl e \<Rightarrow> Inl e | Inr cards \<Rightarrow>
        Inr \<lparr>speciesPeople = ps, speciesFilms = fs, peopleCards = cards\<rparr>)))"

definition speciesHeaderHTML :: "species \<Rightarrow> species_page_parts \<Rightarrow> string" where
  \<open>speciesHeaderHTML sp parts =
     (let speciesPeople = speciesPeople parts;
          speciesFilms = speciesFilms parts;
          peopleHTML = concat (peopleCards parts);
          filmsHTML = (if length speciesFilms > 0 then concat (map filmTag speciesFilms) else noneTag)
      in
       ''\<newline>'' @
       ''    <header>\<newline>'' @
       ''        <div class="container">\<newline>'' @
       ''            <h1 class="logo">STUDIO GHIBLI</h1>\<newline>'' @
       ''            <div style="display: flex; gap: 15px; justify-content: center; flex-wrap: wrap;">\<newline>'' @
       ''                <a href="index.html" class="back-btn">'' @
       [CHR 0xE2, CHR 0x86, CHR 0x90] @
       '' All Films</a>\<newline>'' @
       ''                <a href="javascript:history.back()" class="back-btn">'' @
       [CHR 0xE2, CHR 0x86, CHR 0x90] @
       '' Back</a>\<newline>'' @
       ''            </div>\<newline>'' @
       ''        </div>\<newline>'' @
       ''    </header>\<newline>'' @
       ''\<newline>'' @
       ''    <main class="container">\<newline>'' @
       ''        <div id="species-detail" class="species-detail">\<newline>'' @
       ''            <div class="species-hero '' @
       getSpeciesHeroClass (species_classification sp) @
       ''">\<newline>'' @
       ''                <div class="species-hero-content">\<newline>'' @
       ''                    <h2 class="species-hero-title">'' @
       species_name sp @
       ''</h2>\<newline>'' @
       ''                    <p class="species-hero-subtitle">'' @
       (if truthy (species_classification sp) then the (species_classification sp) else ''Unknown Classification'') @
       ''</p>\<newline>'' @
       ''                </div>\<newline>'' @
       ''            </div>\<newline>'' @
       ''            \<newline>'' @
       ''            <div class="detail-header">\<newline>'' @
       ''                <h2>'' @
       species_name sp @
       ''</h2>\<newline>'' @
       ''                \<newline>'' @
       ''                <div class="info-grid">\<newline>'' @
       ''                    <div class="info-box">\<newline>'' @
       ''                        <div class="info-box-label">Classification</div>\<newline>'' @
       ''                        <div class="info-box-value">'' @
       (if truthy (species_classification sp) then the (species_classification sp) else ''Unknown'') @
       ''</div>\<newline>'' @
       ''                    </div>\<newline>'' @
       ''                    <div class="info-box">\<newline>'' @
       ''                        <div class="info-box-label">Eye Colors</div>\<newline>'' @
       ''                        <div class="info-box-value">'' @
       (if truthy (species_eye_colors sp) then the (species_eye_colors sp) else ''Unknown'') @
       ''</div>\<newline>'' @
       ''                    </div>\<newline>'' @
       ''                    <div class="info-box">\<newline>'' @
       ''                        <div class="info-box-label">Hair Colors</div>\<newline>'' @
       ''                        <div class="info-box-value">'' @
       (if truthy (species_hair_colors sp) then the (species_hair_colors sp) else ''Unknown'') @
       ''</div>\<newline>'' @
       ''                    </div>\<newline>'' @
       ''                </div>\<newline>'' @
       ''            </div>\<newline>'' @
       ''            \<newline>'' @
       ''            <div class="characters-section">\<newline>'' @
       ''                <h3 class="section-title">Characters of this Species ('' @
       number_to_string (length speciesPeople) @
       '')</h3>\<newline>'' @
       ''                <div id="people-grid" class="characters-grid">\<newline>'' @
       ''                    '' @
       (if peopleHTML \<noteq> [] then peopleHTML else ''<p style="text-align: center; grid-column: 1/-1; color: var(--text-dark);">No characters data available.</p>'') @
       ''\<newline>'' @
       ''                </div>\<newline>'' @
       ''            </div>\<newline>'' @
       ''            \<newline>'' @
       ''            <div class="additional-section">\<newline>'' @
       ''                <h3 class="section-title">Films Featuring this Species</h3>\<newline>'' @
       ''                <div id="films-list" class="info-list">\<newline>'' @
       ''                    '' @
       filmsHTML @
       ''\<newline>'' @
       ''                </div>\<newline>'' @
       ''            </div>\<newline>'' @
       ''        </div>\<newline>'' @
       ''    </main>\<newline>'' @
       ''    '')\<close>

text \<open>The parameter \<^verbatim>\<open>speciesId\<close> is not read by the source.\<close>

definition generateSpeciesPage :: "species \<Rightarrow> string \<Rightarrow> data \<Rightarrow> error + string" where
  "generateSpeciesPage sp speciesId d =
     (case speciesPageParts sp d of
        Inl e \<Rightarrow> Inl e
      | Inr parts \<Rightarrow>
          Inr (getSpeciesTemplate (speciesHeaderHTML sp parts) (species_name sp @ '' - Studio Ghibli'')))"

section \<open>File generation\<close>

text \<open>
  The file system is the list of writes, each the file name given to \<^verbatim>\<open>path.join\<close> under
  the output directory and the content; a write is assumed to succeed. The loops stop at
  the first exception, leaving the files written so far.
\<close>

type_synonym writes = "(string \<times> string) list"

fun writeFilmPages :: "minifier \<Rightarrow> data \<Rightarrow> film list \<Rightarrow> writes \<Rightarrow> error option \<times> writes" where
  "writeFilmPages minify d [] w = (None, w)"
| "writeFilmPages minify d (film # rest) w =
     (case generateFilmPage film (film_id film) d of
        Inl e \<Rightarrow> (Some e, w)
      | Inr page \<Rightarrow>
          (case minifyHTML minify page of
             Inl e \<Rightarrow> (Some e, w)
           | Inr html \<Rightarrow> writeFilmPages minify d rest (w @ [(''film_'' @ film_id film @ ''.html'', html)])))"

fun writeSpeciesPages :: "minifier \<Rightarrow> data \<Rightarrow> species list \<Rightarrow> writes \<Rightarrow> error option \<times> writes" where
  "writeSpeciesPages minify d [] w = (None, w)"
| "writeSpeciesPages minify d (sp # rest) w =
     (case generateSpeciesPage sp (species_id sp) d of
        Inl e \<Rightarrow> (Some e, w)
      | Inr page \<Rightarrow>
          (case minifyHTML minify page of
             Inl e \<Rightarrow> (Some e, w)
           | Inr html \<Rightarrow> writeSpeciesPages minify d rest (w @ [(''species_'' @ species_id sp @ ''.html'', html)])))"

text \<open>
  \<^verbatim>\<open>generateStaticFiles(data)\<close>. After the index page \<^verbatim>\<open>data.films\<close> is the array as
  \<^verbatim>\<open>generateIndexPage\<close> left it; the film and species pages are rendered from that data.
\<close>

definition generateStaticFiles :: "minifier \<Rightarrow> data \<Rightarrow> error option \<times> writes" where
  "generateStaticFiles minify d =
     (case generateIndexPage (films d) of
        Inl e \<Rightarrow> (Some e, [])
      | Inr (page, sortedFilms) \<Rightarrow>
          (case minifyHTML minify page of
             Inl e \<Rightarrow> (Some e, [])
           | Inr html \<Rightarrow>
               let d1 = d\<lparr>films := Some sortedFilms\<rparr>;
                   w1 = [(''index.html'', html)]
               in (case writeFilmPages minify d1 sortedFilms w1 of
                     (Some e, w2) \<Rightarrow> (Some e, w2)
                   | (None, w2) \<Rightarrow>
                       (case species d1 of
                          None \<Rightarrow> (None, w2)
                        | Some ss \<Rightarrow> writeSpeciesPages minify d1 ss w2))))"

section \<open>Main\<close>

text \<open>\<^verbatim>\<open>collection.length\<close>: reading a property of \<^verbatim>\<open>null\<close> throws.\<close>

definition array_length :: "'a list option \<Rightarrow> error + nat" where
  "array_length a = (case a of None \<Rightarrow> Inl TypeError | Some xs \<Rightarrow> Inr (length xs))"

text \<open>The five \<^verbatim>\<open>Loaded ... \<close> lines that \<^verbatim>\<open>main\<close> logs before it generates.\<close>

definition loadedCounts :: "data \<Rightarrow> error + nat list" where
  "loadedCounts d =
     (case array_length (films d) of Inl e \<Rightarrow> Inl e | Inr nf \<Rightarrow>
     (case array_length (people d) of Inl e \<Rightarrow> Inl e | Inr np \<Rightarrow>
     (case array_length (species d) of Inl e \<Rightarrow> Inl e | Inr ns \<Rightarrow>
     (case array_length (locations d) of Inl e \<Rightarrow> Inl e | Inr nl \<Rightarrow>
     (case array_length (vehicles d) of Inl e \<Rightarrow> Inl e | Inr nv \<Rightarrow>
        Inr [nf, np, ns, nl, nv])))))"

text \<open>
  \<^verbatim>\<open>main\<close>, from the fetched data on: the exit status of the process and the files written.
  A missing required collection exits with status 1; any exception is caught and exits
  with status 1; otherwise the process ends with status 0.
\<close>

definition main :: "minifier \<Rightarrow> data \<Rightarrow> nat \<times> writes" where
  "main minify d =
     (if films d = None \<or> people d = None \<or> species d = None then (1, [])
      else (case loadedCounts d of
              Inl e \<Rightarrow> (1, [])
            | Inr counts \<Rightarrow>
                (case generateStaticFiles minify d of
                   (Some e, w) \<Rightarrow> (1, w)
                 | (None, w) \<Rightarrow> (0, w))))"

section \<open>Links of the pages\<close>


definition characterCardLinks :: "person \<Rightarrow> species list option \<Rightarrow> string list" where
  "characterCardLinks person speciesArray =
     (case characterSpecies person speciesArray of
        Inl e \<Rightarrow> []
      | Inr (speciesName, speciesUrl) \<Rightarrow>
          if speciesName \<noteq> [] \<and> speciesName \<noteq> ''Unknown'' \<and> truthy speciesUrl
          then [characterSpeciesLink (the speciesUrl)] else [])"






section \<open>Soot sprite animation\<close>



text \<open>A particle element: the local constants of \<^verbatim>\<open>createParticle\<close> and the style it sets.\<close>

record particle =
  particle_size :: real
  particle_angle :: real
  particle_dist :: real
  particle_upwardBias :: real
  particle_tx :: int
  particle_ty :: int
  particle_rot :: int
  particle_left :: real
  particle_top :: real

record sprite =
  soot_exploding :: bool
  soot_hidden :: bool
  style_animation :: string

text \<open>
  A pending \<^verbatim>\<open>setTimeout\<close>: its delay in milliseconds and what it will do, either hide the
  sprite or remove the particle that was appended at the given position.
\<close>

datatype timer_action = HideSprite | RemoveParticle nat

record dom =
  sprite :: sprite
  particles :: "particle list"
  timers :: "(nat \<times> timer_action) list"







section \<open>Reference notions for the properties\<close>



text \<open>
  The two readings of "a person refers to a film": some url of the person's films list has
  the film's id as its trailing path segment, or has it as a substring.
\<close>

definition trailingSegment :: "string \<Rightarrow> string" where
  "trailingSegment url = last (str_split CHR ''/'' url)"

definition refersByTrailingSegment :: "string \<Rightarrow> person \<Rightarrow> bool" where
  "refersByTrailingSegment filmId p =
     (case person_films p of None \<Rightarrow> False | Some urls \<Rightarrow> list_ex (\<lambda>u. trailingSegment u = filmId) urls)"

definition refersBySubstring :: "string \<Rightarrow> person \<Rightarrow> bool" where
  "refersBySubstring filmId p =
     (case person_films p of None \<Rightarrow> False | Some urls \<Rightarrow> list_ex (\<lambda>u. sublist filmId u) urls)"



text \<open>
  A reference url whose trailing segment is one of the five collection names: the last
  part after a slash, or the last non-empty part (a url that ends in a slash).
\<close>

definition endsInCollectionName :: "string \<Rightarrow> bool" where
  "endsInCollectionName u =
     list_ex (\<lambda>n. trailingSegment u = n \<or> lastPart u = Some n) collection_names"


section \<open>Example data\<close>

definition castle :: film where
  "castle = \<lparr>film_id = ''f1'', film_title = ''Castle in the Sky'',
     film_original_title = ''Tenku no shiro Rapyuta'',
     film_original_title_romanised = ''Tenku no shiro Rapyuta'',
     film_director = ''Hayao Miyazaki'', film_producer = ''Isao Takahata'',
     film_release_date = ''1986'', film_running_time = ''124'', film_rt_score = ''95'',
     film_description = ''A girl falls from the sky.''\<rparr>"

definition totoro :: film where
  "totoro = \<lparr>film_id = ''f2'', film_title = ''My Neighbor Totoro'',
     film_original_title = ''Tonari no Totoro'',
     film_original_title_romanised = ''Tonari no Totoro'',
     film_director = ''Hayao Miyazaki'', film_producer = ''Hayao Miyazaki'',
     film_release_date = ''1988'', film_running_time = ''86'', film_rt_score = ''93'',
     film_description = ''Two sisters move to the country.''\<rparr>"

definition fireflies :: film where
  "fireflies = \<lparr>film_id = ''f12'', film_title = ''Grave of the Fireflies'',
     film_original_title = ''Hotaru no haka'',
     film_original_title_romanised = ''Hotaru no haka'',
     film_director = ''Isao Takahata'', film_producer = ''Toru Hara'',
     film_release_date = ''1988'', film_running_time = ''89'', film_rt_score = ''97'',
     film_description = ''Two children in wartime.''\<rparr>"

definition seita :: person where
  "seita = \<lparr>person_id = ''p1'', person_name = ''Seita Yokokawa'', person_gender = Some ''Male'',
     person_age = Some ''14'', person_eye_color = Some ''Brown'', person_hair_color = Some ''Black'',
     person_species = Some ''https://api/species/s9'',
     person_films = Some [''https://api/films/f12'']\<rparr>"

definition catalogue :: data where
  "catalogue = \<lparr>films = Some [castle, fireflies], locations = Some [], vehicles = Some [],
     people = Some [seita], species = Some []\<rparr>"

definition human :: species where
  "human = \<lparr>species_id = ''s1'', species_name = ''Human'', species_classification = Some ''Mammal'',
     species_eye_colors = Some ''Black, Blue, Brown'', species_hair_colors = Some ''Black, Blonde'',
     species_people = Some [''https://api/people/p1'', ''https://api/people/''],
     species_films = Some [''https://api/films/f12'', ''https://api/films/'']\<rparr>"



section \<open>Strings, arrays and loops\<close>

lemma str_includes_sublist: "str_includes s t \<longleftrightarrow> sublist t s"
  by (induction s) (auto simp: sublist_Cons_right)

lemma str_split_not_Nil: "str_split c s \<noteq> []"
  by (induction s) (auto split: list.splits)

lemma str_split_last_suffix:
  "suffix (last (str_split c s)) s \<and> (tl (str_split c s) = [] \<longrightarrow> hd (str_split c s) = s)"
proof (induction s)
  case Nil
  show ?case by simp
next
  case (Cons x xs)
  obtain h t where r: "str_split c xs = h # t"
    using str_split_not_Nil [of c xs] by (cases "str_split c xs") auto
  show ?case
  proof (cases "x = c")
    case True
    with Cons r show ?thesis by (auto simp: suffix_Cons)
  next
    case False
    with Cons r show ?thesis by (cases t) (auto simp: suffix_Cons)
  qed
qed

lemma trailing_segment_included:
  "last (str_split c u) = i \<Longrightarrow> str_includes u i"
  using str_split_last_suffix [of c u] by (auto simp: str_includes_sublist)



lemma sub_here: "sublist x (x @ r)"
  unfolding sublist_def by (rule exI [of _ "[]"], rule exI [of _ r]) simp

lemma sub_skip: "sublist x r \<Longrightarrow> sublist x (l @ r)"
  unfolding sublist_def by (metis append.assoc)

lemma map_err_Inr: "map_err f xs = Inr ys \<longleftrightarrow> map f xs = map Inr ys"
proof (induction xs arbitrary: ys)
  case Nil
  show ?case by auto
next
  case (Cons x xs)
  show ?case
  proof (cases "f x")
    case (Inl e)
    then show ?thesis by (cases ys) auto
  next
    case fx: (Inr y)
    show ?thesis
    proof (cases "map_err f xs")
      case (Inl e)
      have "map f xs \<noteq> map Inr zs" for zs
        using Cons [of zs] Inl by simp
      with fx Inl show ?thesis by (cases ys) auto
    next
      case (Inr zs)
      then have "map f xs = map Inr zs" using Cons [of zs] by simp
      with fx Inr show ?thesis by (cases ys) auto
    qed
  qed
qed










section \<open>Film page: its parts\<close>

lemma getBaseTemplate_content: "sublist content (getBaseTemplate content title)"
  unfolding getBaseTemplate_def by (intro sub_here sub_skip)

lemma filmHeaderHTML_cards:
  "sublist (concat (characterCards parts)) (filmHeaderHTML film filmId parts)"
proof (cases "concat (characterCards parts) = []")
  case True
  show ?thesis by (simp only: True sublist_Nil_left)
next
  case False
  show ?thesis
    unfolding filmHeaderHTML_def Let_def if_P [OF False]
    by (intro sub_here sub_skip)
qed

lemma generateFilmPage_Inr:
  "generateFilmPage film filmId d = Inr page \<longleftrightarrow>
     (\<exists>parts. filmPageParts filmId d = Inr parts \<and>
        page = getBaseTemplate (filmHeaderHTML film filmId parts) (film_title film @ '' - Studio Ghibli''))"
  by (auto simp: generateFilmPage_def split: sum.splits)

lemma refersBySubstring_filmsMatch: "filmsMatch filmId (person_films p) = refersBySubstring filmId p"
  by (simp add: filmsMatch_def refersBySubstring_def str_includes_sublist split: option.splits)

lemma trailing_implies_substring: "refersByTrailingSegment filmId p \<Longrightarrow> refersBySubstring filmId p"
  unfolding refersByTrailingSegment_def refersBySubstring_def trailingSegment_def
  using trailing_segment_included [of "CHR ''/''"]
  by (auto simp: list_ex_iff str_includes_sublist split: option.splits)

lemma filmPageParts_people:
  assumes "filmPageParts filmId d = Inr parts"
  shows "\<exists>ps. people d = Some ps \<and> filmPeople parts = filter (refersBySubstring filmId) ps"
    and "map (\<lambda>p. characterCard p (species d)) (filmPeople parts) = map Inr (characterCards parts)"
  using assms
  by (auto simp: filmPageParts_def getPeopleForFilm_def refersBySubstring_filmsMatch Let_def map_err_Inr
      split: sum.splits if_splits option.splits)

lemma characterCard_Inr:
  "characterSpecies p ss = Inr x \<Longrightarrow> getInitials (person_name p) = Inr i \<Longrightarrow>
   \<exists>cardHtml. characterCard p ss = Inr cardHtml"
  by (cases x) (simp add: characterCard_def)

lemma seita_card: "\<exists>cardHtml. characterCard seita (Some []) = Inr cardHtml"
proof -
  have "characterSpecies seita (Some []) = Inr (''Unknown'', Some ''https://api/species/s9'')"
    by code_simp
  moreover have "getInitials (person_name seita) = Inr ''SY''"
    by code_simp
  ultimately show ?thesis by (rule characterCard_Inr)
qed

lemma catalogue_parts:
  assumes "characterCard seita (Some []) = Inr cardHtml"
  shows "filmPageParts ''f1'' catalogue =
           Inr \<lparr>filmLocations = [], filmPeople = [seita], filmVehicles = [],
                uniqueSpecies = [''https://api/species/s9''], characterCards = [cardHtml], speciesTags = []\<rparr>"
    and "filmPageParts ''f12'' catalogue =
           Inr \<lparr>filmLocations = [], filmPeople = [seita], filmVehicles = [],
                uniqueSpecies = [''https://api/species/s9''], characterCards = [cardHtml], speciesTags = []\<rparr>"
proof -
  have p: "getPeopleForFilm ''f1'' (Some [seita]) = Inr [seita]"
    "getPeopleForFilm ''f12'' (Some [seita]) = Inr [seita]"
    by code_simp+
  have t: "speciesTag ''https://api/species/s9'' (Some []) = Inr []"
    by code_simp
  have u: "new_Set [''https://api/species/s9''] = [''https://api/species/s9'']"
    by code_simp
  have s: "person_species seita = Some ''https://api/species/s9''"
    by (simp add: seita_def)
  show "filmPageParts ''f1'' catalogue =
           Inr \<lparr>filmLocations = [], filmPeople = [seita], filmVehicles = [],
                uniqueSpecies = [''https://api/species/s9''], characterCards = [cardHtml], speciesTags = []\<rparr>"
    by (simp add: filmPageParts_def catalogue_def getLocationsForFilm_def getVehiclesForFilm_def
        p t u s truthy_def assms)
  show "filmPageParts ''f12'' catalogue =
           Inr \<lparr>filmLocations = [], filmPeople = [seita], filmVehicles = [],
                uniqueSpecies = [''https://api/species/s9''], characterCards = [cardHtml], speciesTags = []\<rparr>"
    by (simp add: filmPageParts_def catalogue_def getLocationsForFilm_def getVehiclesForFilm_def
        p t u s truthy_def assms)
qed

section \<open>Runs that complete\<close>














section \<open>A missing optional collection\<close>

text \<open>
  C1. With films, people and species fetched and the locations (or the vehicles) missing,
  \<open>main\<close> passes its check of the required collections and then reads the length of the
  missing collection: the exception is caught and the process exits with status 1, having
  written no file. The film page itself would throw on the missing collection too. With
  all five collections present the same run exits with status 0.
\<close>

theorem main_missing_optional_collection_exits_1:
  "main None \<lparr>films = Some [castle], locations = None, vehicles = Some [],
              people = Some [], species = Some []\<rparr> = (1, []) \<and>
   main None \<lparr>films = Some [castle], locations = Some [], vehicles = None,
              people = Some [], species = Some []\<rparr> = (1, []) \<and>
   generateFilmPage castle ''f1'' \<lparr>films = Some [castle], locations = None, vehicles = Some [],
              people = Some [], species = Some []\<rparr> = Inl TypeError \<and>
   fst (main None \<lparr>films = Some [castle], locations = Some [], vehicles = Some [],
              people = Some [], species = Some []\<rparr>) = 0"
proof -
  have s: "array_sort compareFilms [castle] = [castle]"
    by (simp add: array_sort_def)
  show ?thesis
    by (simp add: main_def loadedCounts_def array_length_def generateStaticFiles_def
        generateIndexPage_def Let_def minifyHTML_def generateFilmPage_def filmPageParts_def
        getLocationsForFilm_def getPeopleForFilm_def getVehiclesForFilm_def new_Set_def s)
qed

section \<open>The index page sorts the fetched array\<close>

text \<open>
  C2. \<open>generateIndexPage\<close> sorts the array it is given in place: called on the films in
  the order My Neighbor Totoro (1988), Castle in the Sky (1986), it leaves the array in the
  order Castle in the Sky, My Neighbor Totoro, which is not the order fetched.
\<close>

theorem generateIndexPage_reorders_fetched_films:
  "map_sum id snd (generateIndexPage (Some [totoro, castle])) = Inr [castle, totoro] \<and>
   [castle, totoro] \<noteq> [totoro, castle]"
proof -
  have s: "array_sort compareFilms [totoro, castle] = [castle, totoro]"
    by code_simp
  have "castle \<noteq> totoro"
    by (simp add: castle_def totoro_def)
  then show ?thesis
    by (simp add: generateIndexPage_def Let_def s)
qed

section \<open>Film page: who gets a character card\<close>

text \<open>
  C3, as amended. On a film page that renders, the character cards are the cards of
  exactly the persons of the people collection who have a films url containing the film's
  id as a substring, in the order of the collection; the cards stand in the page. So a
  person with a url whose trailing segment is the film's id has a card, and a person with
  no url containing the id has none.
\<close>

theorem film_page_cards_by_substring:
  assumes "generateFilmPage film filmId d = Inr page"
  shows "\<exists>parts ps.
           filmPageParts filmId d = Inr parts \<and> people d = Some ps
         \<and> filmPeople parts = filter (refersBySubstring filmId) ps
         \<and> map (\<lambda>p. characterCard p (species d)) (filmPeople parts) = map Inr (characterCards parts)
         \<and> sublist (concat (characterCards parts)) page
         \<and> set (filter (refersByTrailingSegment filmId) ps) \<subseteq> set (filmPeople parts)"
proof -
  from assms obtain parts where
    parts: "filmPageParts filmId d = Inr parts" and
    page: "page = getBaseTemplate (filmHeaderHTML film filmId parts) (film_title film @ '' - Studio Ghibli'')"
    by (auto simp: generateFilmPage_Inr)
  from filmPageParts_people(1) [OF parts] obtain ps where
    ps: "people d = Some ps" "filmPeople parts = filter (refersBySubstring filmId) ps"
    by blast
  have cards: "map (\<lambda>p. characterCard p (species d)) (filmPeople parts) = map Inr (characterCards parts)"
    by (rule filmPageParts_people(2) [OF parts])
  have "sublist (concat (characterCards parts)) (filmHeaderHTML film filmId parts)"
    by (rule filmHeaderHTML_cards)
  then have sub: "sublist (concat (characterCards parts)) page"
    unfolding page using getBaseTemplate_content sublist_order.order_trans by blast
  have incl: "set (filter (refersByTrailingSegment filmId) ps) \<subseteq> set (filmPeople parts)"
    using trailing_implies_substring by (auto simp: ps(2))
  from parts ps cards sub incl show ?thesis by blast
qed

theorem film_page_cards_by_substring_witness:
  "\<exists>page. generateFilmPage fireflies ''f12'' catalogue = Inr page \<and>
     (\<exists>parts ps.
           filmPageParts ''f12'' catalogue = Inr parts \<and> people catalogue = Some ps
         \<and> filmPeople parts = filter (refersBySubstring ''f12'') ps
         \<and> map (\<lambda>p. characterCard p (species catalogue)) (filmPeople parts) = map Inr (characterCards parts)
         \<and> sublist (concat (characterCards parts)) page
         \<and> set (filter (refersByTrailingSegment ''f12'') ps) \<subseteq> set (filmPeople parts))"
proof -
  obtain cardHtml where "characterCard seita (Some []) = Inr cardHtml"
    using seita_card by blast
  then have "\<exists>page. generateFilmPage fireflies ''f12'' catalogue = Inr page"
    by (simp add: generateFilmPage_def catalogue_parts(2))
  then obtain page where page: "generateFilmPage fireflies ''f12'' catalogue = Inr page"
    by blast
  show ?thesis
    using page film_page_cards_by_substring [OF page] by blast
qed

text \<open>
  C3 as stated fails: no url of the films list of the person Seita has the trailing
  segment \<^verbatim>\<open>f1\<close> (the one url ends in \<^verbatim>\<open>f12\<close>), and the page of the film \<^verbatim>\<open>f1\<close>
  has the character card of Seita.
\<close>

theorem character_card_without_trailing_segment:
  "\<not> refersByTrailingSegment ''f1'' seita \<and>
   (\<exists>parts cardHtml. filmPageParts ''f1'' catalogue = Inr parts \<and> filmPeople parts = [seita] \<and>
      characterCard seita (species catalogue) = Inr cardHtml \<and> characterCards parts = [cardHtml]) \<and>
   (\<exists>page. generateFilmPage castle ''f1'' catalogue = Inr page)"
proof -
  have n: "\<not> refersByTrailingSegment ''f1'' seita"
    by code_simp
  obtain cardHtml where cardHtml: "characterCard seita (Some []) = Inr cardHtml"
    using seita_card by blast
  have s: "species catalogue = Some []"
    by (simp add: catalogue_def)
  have p: "\<exists>page. generateFilmPage castle ''f1'' catalogue = Inr page"
    by (simp add: generateFilmPage_def catalogue_parts(1) [OF cardHtml])
  show ?thesis
    using n p catalogue_parts(1) [OF cardHtml] cardHtml s by auto
qed

section \<open>Index page: one card per film, by release year\<close>





section \<open>Links and written files\<close>













text \<open>The link targets stand in the tags and cards as the value of an \<^verbatim>\<open>href\<close>.\<close>

lemma sub_here3: "sublist (a @ l @ b) (a @ l @ b @ r)"
  using sub_here [of "a @ l @ b" r] by simp

lemma filmTag_link: \<open>sublist (''<a href="'' @ filmTagLink f @ ''" class="info-tag" style="text-decoration: none; cursor: pointer;">'') (filmTag f)\<close>
  unfolding filmTag_def by (intro sub_here3 sub_skip)

lemma speciesTagHtml_link: \<open>sublist (''<a href="'' @ speciesTagLink s @ ''" class="info-tag" style="text-decoration: none; cursor: pointer;">'') (speciesTagHtml s)\<close>
  unfolding speciesTagHtml_def by (intro sub_here3 sub_skip)

lemma characterCard_link:
  assumes "characterCard p speciesArray = Inr cardHtml" "l \<in> set (characterCardLinks p speciesArray)"
  shows \<open>sublist (''<a href="'' @ l @ ''" class="species-link">'') cardHtml\<close>
proof -
  obtain speciesName speciesUrl where
    s: "characterSpecies p speciesArray = Inr (speciesName, speciesUrl)"
    using assms(2) by (cases "characterSpecies p speciesArray") (auto simp: characterCardLinks_def)
  from assms(2) have
    c: "speciesName \<noteq> [] \<and> speciesName \<noteq> ''Unknown''" "truthy speciesUrl" and
    l: "l = characterSpeciesLink (the speciesUrl)"
    by (simp_all add: characterCardLinks_def s split: if_splits)
  obtain initials where i: "getInitials (person_name p) = Inr initials"
    using assms(1) by (cases "getInitials (person_name p)") (simp_all add: characterCard_def s)
  have "Inr cardHtml = characterCard p speciesArray"
    using assms(1) by simp
  also have \<open>sublist (''<a href="'' @ l @ ''" class="species-link">'') (projr (characterCard p speciesArray))\<close>
    unfolding characterCard_def s i l sum.case prod.case sum.sel if_P [OF c(1)] if_P [OF c(2)] append_assoc
    by (intro sub_here3 sub_skip)
  ultimately show ?thesis
    by (metis sum.sel(2))
qed



section \<open>Species page: references that name a collection\<close>

lemma last_filter_keeps:
  "xs \<noteq> [] \<Longrightarrow> P (last xs) \<Longrightarrow> filter P xs \<noteq> [] \<and> last (filter P xs) = last xs"
  by (induction xs) (auto split: if_splits)

lemma trailingSegment_lastPart:
  "trailingSegment u = n \<Longrightarrow> n \<noteq> [] \<Longrightarrow> lastPart u = Some n"
  using last_filter_keeps [of "str_split CHR ''/'' u" "\<lambda>part. length part > 0"]
  by (simp add: trailingSegment_def lastPart_def Let_def str_split_not_Nil)

lemma endsInCollectionName_dropped: "endsInCollectionName u \<Longrightarrow> \<not> keepReference u"
  unfolding endsInCollectionName_def keepReference_def list_ex_iff
  using trailingSegment_lastPart [of u]
  by (auto simp: collection_names_def)

lemma speciesHeaderHTML_fields:
  assumes "species_name a = species_name b" "species_classification a = species_classification b"
    "species_eye_colors a = species_eye_colors b" "species_hair_colors a = species_hair_colors b"
  shows "speciesHeaderHTML a parts = speciesHeaderHTML b parts"
  unfolding speciesHeaderHTML_def assms by (rule refl)

text \<open>
  C6. A reference url of a species' people list or films list whose trailing segment is
  one of \<^verbatim>\<open>people\<close>, \<^verbatim>\<open>locations\<close>, \<^verbatim>\<open>species\<close>, \<^verbatim>\<open>vehicles\<close>, \<^verbatim>\<open>films\<close> does not
  pass the filter of the species page, and the page is the same as without the reference:
  it produces no character card and no film tag.
\<close>

theorem species_page_drops_collection_name_references:
  assumes "endsInCollectionName u"
  shows "\<not> keepReference u
       \<and> resolveSpeciesPeople (sp\<lparr>species_people := Some (xs @ u # ys)\<rparr>) d =
           resolveSpeciesPeople (sp\<lparr>species_people := Some (xs @ ys)\<rparr>) d
       \<and> resolveSpeciesFilms (sp\<lparr>species_films := Some (xs @ u # ys)\<rparr>) d =
           resolveSpeciesFilms (sp\<lparr>species_films := Some (xs @ ys)\<rparr>) d
       \<and> generateSpeciesPage (sp\<lparr>species_people := Some (xs @ u # ys)\<rparr>) speciesId d =
           generateSpeciesPage (sp\<lparr>species_people := Some (xs @ ys)\<rparr>) speciesId d
       \<and> generateSpeciesPage (sp\<lparr>species_films := Some (xs @ u # ys)\<rparr>) speciesId d =
           generateSpeciesPage (sp\<lparr>species_films := Some (xs @ ys)\<rparr>) speciesId d"
proof -
  have k: "\<not> keepReference u"
    using assms by (rule endsInCollectionName_dropped)
  have p: "resolveSpeciesPeople (sp\<lparr>species_people := Some (xs @ u # ys)\<rparr>) d =
           resolveSpeciesPeople (sp\<lparr>species_people := Some (xs @ ys)\<rparr>) d"
    by (simp add: resolveSpeciesPeople_def k)
  have f: "resolveSpeciesFilms (sp\<lparr>species_films := Some (xs @ u # ys)\<rparr>) d =
           resolveSpeciesFilms (sp\<lparr>species_films := Some (xs @ ys)\<rparr>) d"
    by (simp add: resolveSpeciesFilms_def k)
  have pf: "resolveSpeciesFilms (sp\<lparr>species_people := a\<rparr>) d = resolveSpeciesFilms (sp\<lparr>species_people := b\<rparr>) d" for a b
    by (simp add: resolveSpeciesFilms_def)
  have fp: "resolveSpeciesPeople (sp\<lparr>species_films := a\<rparr>) d = resolveSpeciesPeople (sp\<lparr>species_films := b\<rparr>) d" for a b
    by (simp add: resolveSpeciesPeople_def)
  have parts_p: "speciesPageParts (sp\<lparr>species_people := Some (xs @ u # ys)\<rparr>) d =
                 speciesPageParts (sp\<lparr>species_people := Some (xs @ ys)\<rparr>) d"
    unfolding speciesPageParts_def p pf [of "Some (xs @ u # ys)" "Some (xs @ ys)"] by (rule refl)
  have parts_f: "speciesPageParts (sp\<lparr>species_films := Some (xs @ u # ys)\<rparr>) d =
                 speciesPageParts (sp\<lparr>species_films := Some (xs @ ys)\<rparr>) d"
    unfolding speciesPageParts_def f fp [of "Some (xs @ u # ys)" "Some (xs @ ys)"] by (rule refl)
  have hp: "speciesHeaderHTML (sp\<lparr>species_people := a\<rparr>) parts = speciesHeaderHTML (sp\<lparr>species_people := b\<rparr>) parts"
    for a b parts
    by (rule speciesHeaderHTML_fields) simp_all
  have hf: "speciesHeaderHTML (sp\<lparr>species_films := a\<rparr>) parts = speciesHeaderHTML (sp\<lparr>species_films := b\<rparr>) parts"
    for a b parts
    by (rule speciesHeaderHTML_fields) simp_all
  have gp: "generateSpeciesPage (sp\<lparr>species_people := Some (xs @ u # ys)\<rparr>) speciesId d =
           generateSpeciesPage (sp\<lparr>species_people := Some (xs @ ys)\<rparr>) speciesId d"
    unfolding generateSpeciesPage_def parts_p
    by (simp add: hp [of "Some (xs @ u # ys)" _ "Some (xs @ ys)"] split: sum.splits)
  have gf: "generateSpeciesPage (sp\<lparr>species_films := Some (xs @ u # ys)\<rparr>) speciesId d =
           generateSpeciesPage (sp\<lparr>species_films := Some (xs @ ys)\<rparr>) speciesId d"
    unfolding generateSpeciesPage_def parts_f
    by (simp add: hf [of "Some (xs @ u # ys)" _ "Some (xs @ ys)"] split: sum.splits)
  from k p f gp gf show ?thesis by blast
qed

theorem species_page_drops_collection_name_references_witness:
  "endsInCollectionName ''https://api/people/''
   \<and> \<not> keepReference ''https://api/people/''
   \<and> resolveSpeciesPeople (human\<lparr>species_people := Some ([''https://api/people/p1''] @ ''https://api/people/'' # [])\<rparr>) catalogue =
       resolveSpeciesPeople (human\<lparr>species_people := Some ([''https://api/people/p1''] @ [])\<rparr>) catalogue
   \<and> resolveSpeciesFilms (human\<lparr>species_films := Some ([''https://api/people/p1''] @ ''https://api/people/'' # [])\<rparr>) catalogue =
       resolveSpeciesFilms (human\<lparr>species_films := Some ([''https://api/people/p1''] @ [])\<rparr>) catalogue
   \<and> generateSpeciesPage (human\<lparr>species_people := Some ([''https://api/people/p1''] @ ''https://api/people/'' # [])\<rparr>) ''s1'' catalogue =
       generateSpeciesPage (human\<lparr>species_people := Some ([''https://api/people/p1''] @ [])\<rparr>) ''s1'' catalogue
   \<and> generateSpeciesPage (human\<lparr>species_films := Some ([''https://api/people/p1''] @ ''https://api/people/'' # [])\<rparr>) ''s1'' catalogue =
       generateSpeciesPage (human\<lparr>species_films := Some ([''https://api/people/p1''] @ [])\<rparr>) ''s1'' catalogue
   \<and> resolveSpeciesPeople human catalogue = Inr [seita]"
proof -
  have h: "endsInCollectionName ''https://api/people/''"
    by code_simp
  have r: "resolveSpeciesPeople human catalogue = Inr [seita]"
    by code_simp
  show ?thesis
    using h r species_page_drops_collection_name_references
      [OF h, where sp = human and xs = "[''https://api/people/p1'']" and ys = "[]"
         and d = catalogue and speciesId = "''s1''"]
    by (intro conjI) blast+
qed

section \<open>Avatar class\<close>

lemma toLowerChar_if: "toLowerChar c =
  (if c = CHR ''A'' then CHR ''a'' else if c = CHR ''B'' then CHR ''b'' else if c = CHR ''C'' then CHR ''c''
   else if c = CHR ''D'' then CHR ''d'' else if c = CHR ''E'' then CHR ''e'' else if c = CHR ''F'' then CHR ''f''
   else if c = CHR ''G'' then CHR ''g'' else if c = CHR ''H'' then CHR ''h'' else if c = CHR ''I'' then CHR ''i''
   else if c = CHR ''J'' then CHR ''j'' else if c = CHR ''K'' then CHR ''k'' else if c = CHR ''L'' then CHR ''l''
   else if c = CHR ''M'' then CHR ''m'' else if c = CHR ''N'' then CHR ''n'' else if c = CHR ''O'' then CHR ''o''
   else if c = CHR ''P'' then CHR ''p'' else if c = CHR ''Q'' then CHR ''q'' else if c = CHR ''R'' then CHR ''r''
   else if c = CHR ''S'' then CHR ''s'' else if c = CHR ''T'' then CHR ''t'' else if c = CHR ''U'' then CHR ''u''
   else if c = CHR ''V'' then CHR ''v'' else if c = CHR ''W'' then CHR ''w'' else if c = CHR ''X'' then CHR ''x''
   else if c = CHR ''Y'' then CHR ''y'' else if c = CHR ''Z'' then CHR ''z'' else c)"
  unfolding toLowerChar_def upper_letters_def lower_letters_def
  by simp

lemma same_letter_femal:
  "same_letter c CHR ''f'' \<longleftrightarrow> c = CHR ''f'' \<or> c = CHR ''F''"
  "same_letter c CHR ''e'' \<longleftrightarrow> c = CHR ''e'' \<or> c = CHR ''E''"
  "same_letter c CHR ''m'' \<longleftrightarrow> c = CHR ''m'' \<or> c = CHR ''M''"
  "same_letter c CHR ''a'' \<longleftrightarrow> c = CHR ''a'' \<or> c = CHR ''A''"
  "same_letter c CHR ''l'' \<longleftrightarrow> c = CHR ''l'' \<or> c = CHR ''L''"
  unfolding same_letter_def upper_letters_def lower_letters_def by auto

lemma toLowerChar_femal:
  "toLowerChar c = CHR ''f'' \<longleftrightarrow> same_letter c CHR ''f''"
  "toLowerChar c = CHR ''e'' \<longleftrightarrow> same_letter c CHR ''e''"
  "toLowerChar c = CHR ''m'' \<longleftrightarrow> same_letter c CHR ''m''"
  "toLowerChar c = CHR ''a'' \<longleftrightarrow> same_letter c CHR ''a''"
  "toLowerChar c = CHR ''l'' \<longleftrightarrow> same_letter c CHR ''l''"
  unfolding toLowerChar_if same_letter_femal by (simp_all split: if_splits)

lemma toLowerCase_female: "toLowerCase s = ''female'' \<longleftrightarrow> eq_ignore_case s ''female''"
  unfolding toLowerCase_def eq_ignore_case_def
  by (auto simp: map_eq_Cons_conv list_all2_Cons2 toLowerChar_femal)

lemma toLowerCase_male: "toLowerCase s = ''male'' \<longleftrightarrow> eq_ignore_case s ''male''"
  unfolding toLowerCase_def eq_ignore_case_def
  by (auto simp: map_eq_Cons_conv list_all2_Cons2 toLowerChar_femal)

lemma eq_ignore_case_Nil: "eq_ignore_case [] (c # cs) = False"
  by (simp add: eq_ignore_case_def)

text \<open>
  C7. The avatar class depends on the gender field only up to the case of its letters:
  a gender that reads "female" in any capitalisation gives \<open>avatar-female\<close>, one
  that reads "male" gives \<open>avatar-male\<close>, and a missing, empty or other gender gives
  \<open>avatar-neutral\<close>.
\<close>

theorem getAvatarColor_case_insensitive:
  "getAvatarColor gender =
     (if \<exists>g. gender = Some g \<and> eq_ignore_case g ''female'' then ''avatar-female''
      else if \<exists>g. gender = Some g \<and> eq_ignore_case g ''male'' then ''avatar-male''
      else ''avatar-neutral'')"
proof (cases gender)
  case None
  then show ?thesis by (simp add: getAvatarColor_def truthy_def)
next
  case (Some g)
  show ?thesis
  proof (cases "g = []")
    case True
    with Some show ?thesis
      by (simp add: getAvatarColor_def truthy_def eq_ignore_case_Nil)
  next
    case False
    with Some show ?thesis
      by (simp add: getAvatarColor_def truthy_def toLowerCase_female toLowerCase_male)
  qed
qed

theorem getAvatarColor_case_insensitive_witness:
  "getAvatarColor (Some ''Female'') = ''avatar-female'' \<and>
   getAvatarColor (Some ''female'') = ''avatar-female'' \<and>
   getAvatarColor (Some ''MaLe'') = ''avatar-male'' \<and>
   getAvatarColor (Some ''n/a'') = ''avatar-neutral'' \<and>
   getAvatarColor None = ''avatar-neutral''"
  using getAvatarColor_case_insensitive [of "Some ''Female''"]
    getAvatarColor_case_insensitive [of "Some ''female''"]
    getAvatarColor_case_insensitive [of "Some ''MaLe''"]
    getAvatarColor_case_insensitive [of "Some ''n/a''"]
    getAvatarColor_case_insensitive [of None]
  by (simp add: eq_ignore_case_def same_letter_femal)

section \<open>Rendering again\<close>










section \<open>Soot explosion: particle count and ranges\<close>







section \<open>Film page: species count and species tags\<close>










end
